theory Spec2Isabelle
  imports Main
begin

section \<open>JavaScript values\<close>

text \<open>
  The bot is written in JavaScript, so every datum that travels through it (request
  fields, stored records, message payloads) is a dynamically typed value. \<open>JNative k\<close>
  stands for the built-in member \<open>k\<close> that every object literal inherits from
  \<open>Object.prototype\<close> (a function, or the prototype object itself for \<open>__proto__\<close>).
  \<open>JNum n\<close> is the number \<open>n\<close> for an integer in JavaScript's safe range, from
  \<open>-(2^53 - 1)\<close> to \<open>2^53 - 1\<close>; other numbers are outside the model. A string is
  its sequence of UTF-8 bytes. An object is an association list read with \<open>map_of\<close>,
  so each key is meant to occur once.
\<close>

datatype jsval =
    JUndefined
  | JNull
  | JBool bool
  | JNum int
  | JStr string
  | JArr "jsval list"
  | JObj "(string \<times> jsval) list"
  | JNative string

type_synonym obj = "(string \<times> jsval) list"

text \<open>\<open>o.k\<close> for an object \<open>o\<close>: a missing property reads as \<open>undefined\<close>.\<close>

definition getProp :: "obj \<Rightarrow> string \<Rightarrow> jsval" where
  "getProp ob k = (case map_of ob k of Some v \<Rightarrow> v | None \<Rightarrow> JUndefined)"

text \<open>\<open>o[k] = v\<close> on an object under construction: an existing key keeps its place.\<close>

fun setProp :: "string \<Rightarrow> jsval \<Rightarrow> obj \<Rightarrow> obj" where
  "setProp k v [] = [(k, v)]"
| "setProp k v ((k', v') # ps) =
     (if k' = k then (k, v) # ps else (k', v') # setProp k v ps)"

text \<open>
  \<open>{...a, ...b}\<close>, and \<open>{...a, k1: v1, k2: v2}\<close> with \<open>b = [(k1, v1), (k2, v2)]\<close>:
  the properties of \<open>b\<close> are written over \<open>a\<close> from left to right.
\<close>

definition spread :: "obj \<Rightarrow> obj \<Rightarrow> obj" where
  "spread a b = foldl (\<lambda>acc (k, v). setProp k v acc) a b"

text \<open>JavaScript truthiness, as tested by \<open>if (x)\<close>, \<open>!x\<close> and \<open>x || y\<close>.\<close>

fun truthy :: "jsval \<Rightarrow> bool" where
  "truthy JUndefined = False"
| "truthy JNull = False"
| "truthy (JBool b) = b"
| "truthy (JNum n) = (n \<noteq> 0)"
| "truthy (JStr s) = (s \<noteq> [])"
| "truthy (JArr xs) = True"
| "truthy (JObj ps) = True"
| "truthy (JNative k) = True"

definition orElse :: "jsval \<Rightarrow> jsval \<Rightarrow> jsval" where
  "orElse a b = (if truthy a then a else b)"

text \<open>
  \<open>a === b\<close>. Primitives compare by value. Objects, arrays and functions compare by
  reference; the two sides of every comparison in this program come from different
  parses (a stored record and a request), so they are never the same reference.
\<close>

fun strictEq :: "jsval \<Rightarrow> jsval \<Rightarrow> bool" where
  "strictEq JUndefined JUndefined = True"
| "strictEq JNull JNull = True"
| "strictEq (JBool a) (JBool b) = (a = b)"
| "strictEq (JNum a) (JNum b) = (a = b)"
| "strictEq (JStr a) (JStr b) = (a = b)"
| "strictEq _ _ = False"

text \<open>Decimal rendering of a natural number, as a template literal renders it.\<close>

fun decimal :: "nat \<Rightarrow> string" where
  "decimal n =
     (if n < 10 then [''0123456789'' ! n]
      else decimal (n div 10) @ [''0123456789'' ! (n mod 10)])"

declare decimal.simps [simp del]

fun joinWith :: "string \<Rightarrow> string list \<Rightarrow> string" where
  "joinWith sep [] = []"
| "joinWith sep [x] = x"
| "joinWith sep (x # y # ys) = x @ sep @ joinWith sep (y # ys)"

text \<open>
  String conversion, as performed by \<open>${v}\<close> and by a computed property key. The
  member \<open>constructor\<close> of \<open>Object.prototype\<close> is the function \<open>Object\<close>; the other
  inherited functions carry their property name.
\<close>

fun toStr :: "jsval \<Rightarrow> string" where
  "toStr JUndefined = ''undefined''"
| "toStr JNull = ''null''"
| "toStr (JBool b) = (if b then ''true'' else ''false'')"
| "toStr (JNum n) = (if n < 0 then ''-'' @ decimal (nat (- n)) else decimal (nat n))"
| "toStr (JStr s) = s"
| "toStr (JArr xs) =
     joinWith '','' (map (\<lambda>x. if x = JNull \<or> x = JUndefined then [] else toStr x) xs)"
| "toStr (JObj ps) = ''[object Object]''"
| "toStr (JNative k) =
     (if k = ''__proto__'' then ''[object Object]''
      else ''function '' @ (if k = ''constructor'' then ''Object'' else k)
             @ ''() { [native code] }'')"

text \<open>
  \<open>JSON.stringify\<close> of a record on its way to a file: a property holding
  \<open>undefined\<close> or a function is left out, the prototype object is written as \<open>{}\<close>.
\<close>

fun serialisable :: "jsval \<Rightarrow> bool" where
  "serialisable JUndefined = False"
| "serialisable (JNative k) = (k = ''__proto__'')"
| "serialisable _ = True"

fun asJSON :: "jsval \<Rightarrow> jsval" where
  "asJSON (JNative k) = JObj []"
| "asJSON v = v"

definition stringify :: "obj \<Rightarrow> obj" where
  "stringify ob = map (\<lambda>(k, v). (k, asJSON v)) (filter (\<lambda>(k, v). serialisable v) ob)"

section \<open>Environment and state\<close>

text \<open>
  \<open>process.env\<close> and the non-deterministic built-ins. Every reading of the clock or of
  the random generator is numbered; the environment says what the reading numbered
  \<open>i\<close> returns, so the model holds for any clock and any generator.
\<close>

record env =
  VERIFY_TOKEN :: "string option"
  BASE_URL :: "string option"
  WHATSAPP_FLOW_ID_8A :: "string option"
  WHATSAPP_FLOW_ID_712 :: "string option"
  WHATSAPP_FLOW_ID_FERFAR :: "string option"
  WHATSAPP_FLOW_ID_PROPERTY :: "string option"
  dateNow :: "nat \<Rightarrow> nat"
  toISOString :: "nat \<Rightarrow> string"
  toLocaleDateString :: "nat \<Rightarrow> string"
  random36 :: "nat \<Rightarrow> string"
  random1000 :: "nat \<Rightarrow> nat"

text \<open>\<open>process.env.X || "default"\<close>: an unset or empty variable gives the default.\<close>

definition envOr :: "string option \<Rightarrow> string \<Rightarrow> string" where
  "envOr v d = (case v of None \<Rightarrow> d | Some s \<Rightarrow> if s = [] then d else s)"

text \<open>
  The three JSON files of \<open>database.service.js\<close>, the messages handed to
  \<open>whatsappService.sendMessage\<close> (recipient and payload, in order), and the number of
  clock and generator readings made so far.
\<close>

record world =
  users :: "obj list"
  orders :: "obj list"
  sessions :: "obj list"
  outbox :: "(jsval \<times> jsval) list"
  ticks :: nat

definition tick :: "nat \<Rightarrow> world \<Rightarrow> world" where
  "tick n w = w\<lparr>ticks := ticks w + n\<rparr>"

section \<open>database.service.js\<close>

text \<open>
  \<open>readFile\<close> and \<open>writeFile\<close> are modelled on a file system that does not fail: a read
  returns the stored array, a write stores the array given. Records already in the
  array were parsed from the file, so only the record being added or replaced changes
  under \<open>JSON.stringify\<close>.
\<close>

fun findIndex :: "('a \<Rightarrow> bool) \<Rightarrow> 'a list \<Rightarrow> nat option" where
  "findIndex P [] = None"
| "findIndex P (x # xs) = (if P x then Some 0 else map_option Suc (findIndex P xs))"

subsection \<open>Users\<close>

definition createUser :: "env \<Rightarrow> obj \<Rightarrow> world \<Rightarrow> obj \<times> world" where
  "createUser e userData w =
     (let t = ticks w;
          newUser =
            spread
              (spread
                 [(''id'', JStr (''user_'' @ decimal (dateNow e t) @ ''_'' @ random36 e (t + 1)))]
                 userData)
              [(''createdAt'', JStr (toISOString e (t + 2))),
               (''updatedAt'', JStr (toISOString e (t + 3)))]
      in (newUser, w\<lparr>users := users w @ [stringify newUser], ticks := t + 4\<rparr>))"

definition findUserByWhatsappId :: "jsval \<Rightarrow> world \<Rightarrow> obj option" where
  "findUserByWhatsappId whatsappId w =
     List.find (\<lambda>user. strictEq (getProp user ''whatsappId'') whatsappId) (users w)"

definition updateUser :: "env \<Rightarrow> jsval \<Rightarrow> obj \<Rightarrow> world \<Rightarrow> obj option \<times> world" where
  "updateUser e whatsappId updates w =
     (case findIndex (\<lambda>user. strictEq (getProp user ''whatsappId'') whatsappId) (users w) of
        None \<Rightarrow> (None, w)
      | Some i \<Rightarrow>
          (let merged = spread (spread (users w ! i) updates)
                          [(''updatedAt'', JStr (toISOString e (ticks w)))]
           in (Some merged,
               w\<lparr>users := (users w)[i := stringify merged], ticks := ticks w + 1\<rparr>)))"

definition upsertUser :: "env \<Rightarrow> jsval \<Rightarrow> obj \<Rightarrow> world \<Rightarrow> obj option \<times> world" where
  "upsertUser e whatsappId userData w =
     (case findUserByWhatsappId whatsappId w of
        Some existingUser \<Rightarrow> updateUser e whatsappId userData w
      | None \<Rightarrow>
          (let (newUser, w') = createUser e (spread [(''whatsappId'', whatsappId)] userData) w
           in (Some newUser, w')))"

subsection \<open>Orders\<close>

definition createOrder :: "env \<Rightarrow> obj \<Rightarrow> world \<Rightarrow> obj \<times> world" where
  "createOrder e orderData w =
     (let t = ticks w;
          given = truthy (getProp orderData ''orderId'');
          t1 = (if given then t + 2 else t + 4);
          newOrder =
            spread
              (spread
                 [(''id'', JStr (''order_'' @ decimal (dateNow e t) @ ''_'' @ random36 e (t + 1))),
                  (''orderId'',
                     if given then getProp orderData ''orderId''
                     else JStr (''ORD'' @ decimal (dateNow e (t + 2))
                                  @ decimal (random1000 e (t + 3))))]
                 orderData)
              [(''createdAt'', JStr (toISOString e t1)),
               (''updatedAt'', JStr (toISOString e (t1 + 1))),
               (''status'', JStr ''pending''),
               (''paymentStatus'', JStr ''pending'')]
      in (newOrder, w\<lparr>orders := orders w @ [stringify newOrder], ticks := t1 + 2\<rparr>))"

definition findOrderByOrderId :: "jsval \<Rightarrow> world \<Rightarrow> obj option" where
  "findOrderByOrderId orderId w =
     List.find (\<lambda>order. strictEq (getProp order ''orderId'') orderId) (orders w)"

definition updateOrder :: "env \<Rightarrow> jsval \<Rightarrow> obj \<Rightarrow> world \<Rightarrow> obj option \<times> world" where
  "updateOrder e orderId updates w =
     (case findIndex (\<lambda>order. strictEq (getProp order ''orderId'') orderId) (orders w) of
        None \<Rightarrow> (None, w)
      | Some i \<Rightarrow>
          (let merged = spread (spread (orders w ! i) updates)
                          [(''updatedAt'', JStr (toISOString e (ticks w)))]
           in (Some merged,
               w\<lparr>orders := (orders w)[i := stringify merged], ticks := ticks w + 1\<rparr>)))"

subsection \<open>Sessions\<close>

definition createSession :: "env \<Rightarrow> obj \<Rightarrow> world \<Rightarrow> obj \<times> world" where
  "createSession e sessionData w =
     (let t = ticks w;
          newSession =
            spread
              (spread
                 [(''id'', JStr (''session_'' @ decimal (dateNow e t) @ ''_'' @ random36 e (t + 1)))]
                 sessionData)
              [(''createdAt'', JStr (toISOString e (t + 2))),
               (''updatedAt'', JStr (toISOString e (t + 3)))]
      in (newSession, w\<lparr>sessions := sessions w @ [stringify newSession], ticks := t + 4\<rparr>))"

definition findSessionByWhatsappId :: "jsval \<Rightarrow> world \<Rightarrow> obj option" where
  "findSessionByWhatsappId whatsappId w =
     List.find (\<lambda>session. strictEq (getProp session ''whatsappId'') whatsappId) (sessions w)"

definition updateSession :: "env \<Rightarrow> jsval \<Rightarrow> obj \<Rightarrow> world \<Rightarrow> obj option \<times> world" where
  "updateSession e whatsappId updates w =
     (case findIndex (\<lambda>session. strictEq (getProp session ''whatsappId'') whatsappId)
             (sessions w) of
        None \<Rightarrow> (None, w)
      | Some i \<Rightarrow>
          (let merged = spread (spread (sessions w ! i) updates)
                          [(''updatedAt'', JStr (toISOString e (ticks w)))]
           in (Some merged,
               w\<lparr>sessions := (sessions w)[i := stringify merged], ticks := ticks w + 1\<rparr>)))"

definition createOrUpdateSession :: "env \<Rightarrow> jsval \<Rightarrow> obj \<Rightarrow> world \<Rightarrow> obj option \<times> world" where
  "createOrUpdateSession e whatsappId sessionData w =
     (case findSessionByWhatsappId whatsappId w of
        Some existingSession \<Rightarrow> updateSession e whatsappId sessionData w
      | None \<Rightarrow>
          (let (newSession, w') = createSession e sessionData w
           in (Some newSession, w')))"

section \<open>whatsapp.service.js\<close>

text \<open>
  \<open>sendMessage\<close> wraps its whole body in \<open>try\<close>/\<open>catch\<close> and returns an object in every
  case (the platform's answer, a would-have-sent marker without credentials, or an
  error marker), and every caller discards that object. The model records the call.
\<close>

definition sendMessage :: "jsval \<Rightarrow> jsval \<Rightarrow> world \<Rightarrow> world" where
  "sendMessage to message w = w\<lparr>outbox := outbox w @ [(to, message)]\<rparr>"

definition textMessage :: "string \<Rightarrow> jsval" where
  "textMessage text = JObj [(''type'', JStr ''text''), (''text'', JObj [(''body'', JStr text)])]"

definition sendTextMessage :: "jsval \<Rightarrow> string \<Rightarrow> world \<Rightarrow> world" where
  "sendTextMessage to text w = sendMessage to (textMessage text) w"

definition sendPaymentLink :: "jsval \<Rightarrow> obj \<Rightarrow> world \<Rightarrow> world" where
  "sendPaymentLink to orderDetails w =
     sendTextMessage to
       (''Payment Required'' @ [CHR 0x0A, CHR 0x0A]
        @ ''Service: '' @ toStr (getProp orderDetails ''service'') @ [CHR 0x0A]
        @ ''Amount: Rs.'' @ toStr (getProp orderDetails ''amount'') @ [CHR 0x0A]
        @ ''Order ID: '' @ toStr (getProp orderDetails ''orderId'') @ [CHR 0x0A, CHR 0x0A]
        @ ''Please pay using this link:'' @ [CHR 0x0A]
        @ toStr (getProp orderDetails ''paymentLink'') @ [CHR 0x0A, CHR 0x0A]
        @ ''After payment, you'' @ [CHR 0x27] @ ''ll receive confirmation here.'')
       w"

section \<open>welcome.template.js\<close>

definition replyButton :: "string \<Rightarrow> string \<Rightarrow> jsval" where
  "replyButton ident title =
     JObj [(''type'', JStr ''reply''),
           (''reply'', JObj [(''id'', JStr ident), (''title'', JStr title)])]"

definition welcomeMessage :: jsval where
  "welcomeMessage =
     JObj [(''type'', JStr ''interactive''),
           (''interactive'',
            JObj [(''type'', JStr ''button''),
                  (''header'', JObj [(''type'', JStr ''text''),
                                     (''text'', JStr ''Welcome to Land Record Services'')]),
                  (''body'', JObj [(''text'', JStr (''Hello! I'' @ [CHR 0x27] @ ''m here to help you with land record services. Please choose the service you need from the options below:''))]),
                  (''action'',
                   JObj [(''buttons'',
                          JArr [replyButton ''8a_service'' ''8A Form'',
                                replyButton ''712_service'' ''7/12 Form'',
                                replyButton ''ferfar_service'' ''Ferfar'',
                                replyButton ''property_card_service'' ''Property Card''])])])]"

section \<open>message.controller.js\<close>

text \<open>
  \<open>literal[key]\<close> on an object literal: when the literal has no such key the lookup
  goes on to \<open>Object.prototype\<close>.
\<close>

definition objectPrototypeKeys :: "string list" where
  "objectPrototypeKeys =
     [''constructor'', ''__defineGetter__'', ''__defineSetter__'', ''hasOwnProperty'',
      ''__lookupGetter__'', ''__lookupSetter__'', ''isPrototypeOf'', ''propertyIsEnumerable'',
      ''toString'', ''valueOf'', ''__proto__'', ''toLocaleString'']"

definition literalLookup :: "obj \<Rightarrow> string \<Rightarrow> jsval" where
  "literalLookup literal key =
     (case map_of literal key of
        Some v \<Rightarrow> v
      | None \<Rightarrow> if key \<in> set objectPrototypeKeys then JNative key else JUndefined)"

definition amounts :: obj where
  "amounts = [(''8A Form'', JNum 500), (''7/12 Form'', JNum 300),
              (''Ferfar'', JNum 400), (''Property Card'', JNum 250)]"

definition getServiceAmount :: "jsval \<Rightarrow> jsval" where
  "getServiceAmount serviceName = orElse (literalLookup amounts (toStr serviceName)) (JNum 100)"

definition flowIds :: "env \<Rightarrow> obj" where
  "flowIds e =
     [(''8a_service'', JStr (envOr (WHATSAPP_FLOW_ID_8A e) ''1234567890'')),
      (''712_service'', JStr (envOr (WHATSAPP_FLOW_ID_712 e) ''1234567891'')),
      (''ferfar_service'', JStr (envOr (WHATSAPP_FLOW_ID_FERFAR e) ''1234567892'')),
      (''property_card_service'', JStr (envOr (WHATSAPP_FLOW_ID_PROPERTY e) ''1234567893''))]"

text \<open>\<open>buildFlowMessage\<close> reads the clock once, for the flow token.\<close>

definition buildFlowMessage :: "env \<Rightarrow> string \<Rightarrow> string \<Rightarrow> nat \<Rightarrow> jsval" where
  "buildFlowMessage e serviceId serviceName t =
     JObj [(''type'', JStr ''interactive''),
           (''interactive'',
            JObj [(''type'', JStr ''flow''),
                  (''header'', JObj [(''type'', JStr ''text''), (''text'', JStr serviceName)]),
                  (''body'', JObj [(''text'', JStr (''Please fill out the '' @ serviceName
                                       @ '' form to proceed with your application.''))]),
                  (''footer'', JObj [(''text'', JStr ''Your data is secure and encrypted.'')]),
                  (''action'',
                   JObj [(''name'', JStr ''flow''),
                         (''parameters'',
                          JObj [(''flow_message_version'', JStr ''3''),
                                (''flow_action'', JStr ''navigate''),
                                (''flow_id'', literalLookup (flowIds e) serviceId),
                                (''flow_cta'', JStr ''Start Form''),
                                (''flow_token'', JStr (''token_'' @ decimal (dateNow e t)
                                                  @ ''_'' @ serviceId))])])])]"

definition triggerServiceFlow :: "env \<Rightarrow> jsval \<Rightarrow> string \<Rightarrow> string \<Rightarrow> world \<Rightarrow> world" where
  "triggerServiceFlow e whatsappId serviceId serviceName w =
     (let sessionData =
            [(''whatsappId'', whatsappId),
             (''step'', JStr ''awaiting_flow_completion''),
             (''selectedService'', JStr serviceId),
             (''serviceName'', JStr serviceName),
             (''createdAt'', JStr (toISOString e (ticks w)))];
          w1 = snd (createOrUpdateSession e whatsappId sessionData (tick 1 w));
          flowMessage = buildFlowMessage e serviceId serviceName (ticks w1)
      in sendMessage whatsappId flowMessage (tick 1 w1))"

text \<open>
  \<open>toLowerCase\<close> on UTF-8 bytes lowers the letters \<open>A\<close> to \<open>Z\<close>. JavaScript also lowers
  letters outside ASCII, but none of them to a string of the command table: the only
  ones that lower to ASCII letters give \<open>k\<close>, which no keyword holds, or \<open>i\<close> followed
  by a combining mark. So a text is lowered to a keyword here exactly when JavaScript
  lowers it to that keyword.
\<close>

definition lowerChar :: "char \<Rightarrow> char" where
  "lowerChar c =
     (case map_of (zip ''ABCDEFGHIJKLMNOPQRSTUVWXYZ'' ''abcdefghijklmnopqrstuvwxyz'') c of
        Some d \<Rightarrow> d
      | None \<Rightarrow> c)"

definition toLowerCase :: "string \<Rightarrow> string" where
  "toLowerCase s = map lowerChar s"

text \<open>
  The white space and line terminators that \<open>String.prototype.trim\<close> removes, each as
  its UTF-8 bytes: U+0009 to U+000D, U+0020, U+00A0, U+1680, U+2000 to U+200A, U+2028,
  U+2029, U+202F, U+205F, U+3000 and U+FEFF.
\<close>

definition whiteSpace :: "string list" where
  "whiteSpace =
     [[CHR 0x09], [CHR 0x0A], [CHR 0x0B], [CHR 0x0C], [CHR 0x0D], [CHR 0x20],
      [CHR 0xC2, CHR 0xA0],
      [CHR 0xE1, CHR 0x9A, CHR 0x80],
      [CHR 0xE2, CHR 0x80, CHR 0x80], [CHR 0xE2, CHR 0x80, CHR 0x81],
      [CHR 0xE2, CHR 0x80, CHR 0x82], [CHR 0xE2, CHR 0x80, CHR 0x83],
      [CHR 0xE2, CHR 0x80, CHR 0x84], [CHR 0xE2, CHR 0x80, CHR 0x85],
      [CHR 0xE2, CHR 0x80, CHR 0x86], [CHR 0xE2, CHR 0x80, CHR 0x87],
      [CHR 0xE2, CHR 0x80, CHR 0x88], [CHR 0xE2, CHR 0x80, CHR 0x89],
      [CHR 0xE2, CHR 0x80, CHR 0x8A],
      [CHR 0xE2, CHR 0x80, CHR 0xA8], [CHR 0xE2, CHR 0x80, CHR 0xA9],
      [CHR 0xE2, CHR 0x80, CHR 0xAF],
      [CHR 0xE2, CHR 0x81, CHR 0x9F],
      [CHR 0xE3, CHR 0x80, CHR 0x80],
      [CHR 0xEF, CHR 0xBB, CHR 0xBF]]"

text \<open>Remove the given byte sequences from the front of a string for as long as one fits.\<close>

function stripLeading :: "string list \<Rightarrow> string \<Rightarrow> string" where
  "stripLeading seqs s =
     (case List.find (\<lambda>q. q \<noteq> [] \<and> take (length q) s = q) seqs of
        None \<Rightarrow> s
      | Some q \<Rightarrow> stripLeading seqs (drop (length q) s))"
  by pat_completeness auto
termination
proof (relation "measure (\<lambda>(seqs, s). length s)")
  show "wf (measure (\<lambda>(seqs, s). length s))" by simp
next
  fix seqs :: "string list" and s q :: string
  assume "List.find (\<lambda>q. q \<noteq> [] \<and> take (length q) s = q) seqs = Some q"
  then have "q \<noteq> []" and "take (length q) s = q"
    by (auto simp: find_Some_iff)
  then have "s \<noteq> []" by auto
  with \<open>q \<noteq> []\<close> show "((seqs, drop (length q) s), (seqs, s)) \<in> measure (\<lambda>(seqs, s). length s)"
    by simp
qed

declare stripLeading.simps [simp del]

definition trim :: "string \<Rightarrow> string" where
  "trim s = rev (stripLeading (map rev whiteSpace) (rev (stripLeading whiteSpace s)))"

definition helpText :: string where
  "helpText = ''I didn'' @ [CHR 0x27] @ ''t understand that. Type '' @ [CHR 0x22] @ ''hi''
              @ [CHR 0x22] @ '' to see available services.''"

definition errorText :: string where
  "errorText = ''Sorry, I encountered an error. Please try again or send '' @ [CHR 0x22]
               @ ''hi'' @ [CHR 0x22] @ '' to restart.''"

text \<open>
  \<open>handleMessage\<close>: the user is upserted first; \<open>messageText.toLowerCase()\<close> throws
  unless the text is a string, and the \<open>catch\<close> answers with the error text.
\<close>

definition handleMessage :: "env \<Rightarrow> jsval \<Rightarrow> jsval \<Rightarrow> world \<Rightarrow> world" where
  "handleMessage e from messageText w =
     (let userData =
            [(''whatsappId'', from),
             (''phoneNumber'', from),
             (''lastSeen'', JStr (toISOString e (ticks w))),
             (''lastMessage'', messageText)];
          w1 = snd (upsertUser e from userData (tick 1 w))
      in case messageText of
           JStr s \<Rightarrow>
             (let text = trim (toLowerCase s) in
              if text = ''hi'' \<or> text = ''hello'' \<or> text = ''start''
                then sendMessage from welcomeMessage w1
              else if text = ''8a_service'' \<or> text = ''8a'' \<or> text = ''8a form''
                then triggerServiceFlow e from ''8a_service'' ''8A Form'' w1
              else if text = ''712_service'' \<or> text = ''712'' \<or> text = ''7/12''
                then triggerServiceFlow e from ''712_service'' ''7/12 Form'' w1
              else if text = ''ferfar_service'' \<or> text = ''ferfar''
                then triggerServiceFlow e from ''ferfar_service'' ''Ferfar'' w1
              else if text = ''property_card_service'' \<or> text = ''property''
                      \<or> text = ''property card''
                then triggerServiceFlow e from ''property_card_service'' ''Property Card'' w1
              else sendTextMessage from helpText w1)
         | _ \<Rightarrow> sendTextMessage from errorText w1)"

definition sessionExpiredText :: string where
  "sessionExpiredText = ''Session expired. Please start over by sending '' @ [CHR 0x22]
                        @ ''hi'' @ [CHR 0x22] @ ''.''"

definition handleFlowCompletion :: "env \<Rightarrow> jsval \<Rightarrow> jsval \<Rightarrow> jsval \<Rightarrow> world \<Rightarrow> world" where
  "handleFlowCompletion e whatsappId flowToken flowData w =
     (case findSessionByWhatsappId whatsappId w of
        None \<Rightarrow> sendTextMessage whatsappId sessionExpiredText w
      | Some session \<Rightarrow>
          (let t = ticks w;
               orderData =
                 [(''orderId'', JStr (''ORD_'' @ decimal (dateNow e t) @ ''_'' @ random36 e (t + 1))),
                  (''whatsappId'', whatsappId),
                  (''serviceType'', getProp session ''serviceName''),
                  (''userData'', flowData),
                  (''amount'', getServiceAmount (getProp session ''serviceName'')),
                  (''status'', JStr ''pending''),
                  (''paymentStatus'', JStr ''pending''),
                  (''createdAt'', JStr (toISOString e (t + 2)))];
               (order, w1) = createOrder e orderData (tick 3 w);
               w2 = snd (createOrUpdateSession e whatsappId
                           (spread session
                              [(''step'', JStr ''awaiting_payment''),
                               (''orderId'', getProp order ''orderId'')])
                           w1);
               baseUrl = envOr (BASE_URL e) ''http://localhost:3000'';
               paymentLink = baseUrl @ ''/payment/checkout?orderId=''
                               @ toStr (getProp order ''orderId'')
                               @ ''&whatsappId='' @ toStr whatsappId;
               paymentMessage =
                 ''Thank you for filling the form!'' @ [CHR 0x0A, CHR 0x0A]
                 @ ''Order ID: '' @ toStr (getProp order ''orderId'') @ [CHR 0x0A]
                 @ ''Service: '' @ toStr (getProp session ''serviceName'') @ [CHR 0x0A]
                 @ ''Amount: Rs.'' @ toStr (getProp order ''amount'') @ [CHR 0x0A, CHR 0x0A]
                 @ ''Click below to proceed with payment:'';
               w3 = sendTextMessage whatsappId paymentMessage w2
           in sendPaymentLink whatsappId
                [(''orderId'', getProp order ''orderId''),
                 (''service'', getProp session ''serviceName''),
                 (''amount'', getProp order ''amount''),
                 (''paymentLink'', JStr paymentLink)]
                w3))"

section \<open>HTTP requests and responses\<close>

text \<open>
  \<open>req.query\<close> is always an object. \<open>req.body\<close> is whatever the body parsers left:
  an object, or \<open>undefined\<close> where the parser leaves a request without a body alone.
  A rendered HTML page is identified by its kind and the values interpolated into it.
\<close>

record request =
  query :: obj
  body :: jsval

datatype page =
    MockSuccessPage string string string
  | SuccessPage
  | FailurePage

datatype payload =
    Send jsval
  | SendStatus
  | Json jsval
  | Html page

record response =
  status :: nat
  payload :: payload

definition nullish :: "jsval \<Rightarrow> bool" where
  "nullish v = (v = JUndefined \<or> v = JNull)"

text \<open>
  \<open>v.k\<close> for a value that is not \<open>null\<close> or \<open>undefined\<close> (there the read throws, which
  each caller models), and \<open>v?.k\<close>. None of the property names this program reads is a
  member of a primitive's or an array's prototype.
\<close>

definition propOf :: "jsval \<Rightarrow> string \<Rightarrow> jsval" where
  "propOf v k = (case v of JObj ps \<Rightarrow> getProp ps k | _ \<Rightarrow> JUndefined)"

definition optProp :: "jsval \<Rightarrow> string \<Rightarrow> jsval" where
  "optProp v k = (if nullish v then JUndefined else propOf v k)"

definition isArray :: "jsval \<Rightarrow> bool" where
  "isArray v = (case v of JArr xs \<Rightarrow> True | _ \<Rightarrow> False)"

definition elems :: "jsval \<Rightarrow> jsval list" where
  "elems v = (case v of JArr xs \<Rightarrow> xs | _ \<Rightarrow> [])"

section \<open>payment.controller.js\<close>

text \<open>
  \<open>verifyPaymentSignature\<close> accepts every signature: the body of its \<open>try\<close> is a log
  line and \<open>return true\<close>.
\<close>

definition verifyPaymentSignature :: "jsval \<Rightarrow> jsval \<Rightarrow> jsval \<Rightarrow> bool" where
  "verifyPaymentSignature orderId paymentId signature = True"

definition sendPaymentConfirmation :: "env \<Rightarrow> jsval \<Rightarrow> obj \<Rightarrow> world \<Rightarrow> world" where
  "sendPaymentConfirmation e whatsappId order w =
     sendTextMessage whatsappId
       (''Payment Successful!'' @ [CHR 0x0A, CHR 0x0A]
        @ ''Order ID: '' @ toStr (getProp order ''orderId'') @ [CHR 0x0A]
        @ ''Service: '' @ toStr (getProp order ''serviceType'') @ [CHR 0x0A]
        @ ''Amount: Rs.'' @ toStr (getProp order ''amount'') @ [CHR 0x0A]
        @ ''Date: '' @ toLocaleDateString e (ticks w) @ [CHR 0x0A, CHR 0x0A]
        @ ''Your application has been received. We'' @ [CHR 0x27]
        @ ''ll process it within 24 hours.'')
       (tick 1 w)"

definition handleFailure :: "env \<Rightarrow> request \<Rightarrow> world \<Rightarrow> response \<times> world" where
  "handleFailure e req w =
     (let orderId = getProp (query req) ''orderId'';
          w' =
            (if truthy orderId then
               (let w1 = snd (updateOrder e orderId
                                [(''status'', JStr ''failed''),
                                 (''paymentStatus'', JStr ''failed''),
                                 (''failedAt'', JStr (toISOString e (ticks w)))]
                                (tick 1 w))
                in case findOrderByOrderId orderId w1 of
                     Some order \<Rightarrow>
                       sendTextMessage (getProp order ''whatsappId'')
                         (''Payment failed for order '' @ toStr orderId
                          @ ''. Please try again or contact support.'')
                         w1
                   | None \<Rightarrow> w1)
             else w)
      in (\<lparr>status = 200, payload = Html FailurePage\<rparr>, w'))"

text \<open>
  \<open>handleSuccess\<close>: \<open>const { mock } = req.body\<close> throws when the body is \<open>undefined\<close> or
  \<open>null\<close>, and the \<open>catch\<close> hands the request to \<open>handleFailure\<close>. Nothing after that line
  throws.
\<close>

definition handleSuccess :: "env \<Rightarrow> request \<Rightarrow> world \<Rightarrow> response \<times> world" where
  "handleSuccess e req w =
     (let orderId = getProp (query req) ''orderId'';
          paymentId = getProp (query req) ''paymentId'';
          signature = getProp (query req) ''signature''
      in if nullish (body req) then handleFailure e req w
         else
           (let mock = propOf (body req) ''mock'' in
            if \<not> truthy orderId
              then (\<lparr>status = 400, payload = Json (JObj [(''error'', JStr ''Missing orderId'')])\<rparr>, w)
            else
              (case findOrderByOrderId orderId w of
                 None \<Rightarrow>
                   (\<lparr>status = 404, payload = Json (JObj [(''error'', JStr ''Order not found'')])\<rparr>, w)
               | Some order \<Rightarrow>
                   if strictEq mock (JStr ''true'') then
                     (let t = ticks w;
                          t1 = (if truthy paymentId then t else t + 1);
                          w1 = snd (updateOrder e orderId
                                      [(''status'', JStr ''completed''),
                                       (''paymentStatus'', JStr ''captured''),
                                       (''paymentId'',
                                          orElse paymentId (JStr (''mock_'' @ decimal (dateNow e t)))),
                                       (''completedAt'', JStr (toISOString e t1))]
                                      (w\<lparr>ticks := t1 + 1\<rparr>));
                          w2 = sendPaymentConfirmation e (getProp order ''whatsappId'') order w1
                      in (\<lparr>status = 200,
                            payload = Html (MockSuccessPage (toStr orderId)
                                              (toStr (getProp order ''amount''))
                                              (toStr (getProp order ''serviceType'')))\<rparr>,
                          w2))
                   else if truthy paymentId \<and> truthy signature
                           \<and> \<not> verifyPaymentSignature orderId paymentId signature
                     then (\<lparr>status = 400,
                             payload = Json (JObj [(''error'', JStr ''Payment verification failed'')])\<rparr>,
                           w)
                   else
                     (let w1 = snd (updateOrder e orderId
                                      [(''status'', JStr ''completed''),
                                       (''paymentStatus'', JStr ''captured''),
                                       (''paymentId'', orElse paymentId (JStr ''razorpay_payment_id'')),
                                       (''completedAt'', JStr (toISOString e (ticks w)))]
                                      (tick 1 w));
                          w2 = sendPaymentConfirmation e (getProp order ''whatsappId'') order w1;
                          w3 = snd (createOrUpdateSession e (getProp order ''whatsappId'')
                                      [(''whatsappId'', getProp order ''whatsappId''),
                                       (''step'', JStr ''completed''),
                                       (''orderId'', orderId),
                                       (''completedAt'', JStr (toISOString e (ticks w2)))]
                                      (tick 1 w2))
                      in (\<lparr>status = 200, payload = Html SuccessPage\<rparr>, w3)))))"

section \<open>webhook.controller.js\<close>

definition envValue :: "string option \<Rightarrow> jsval" where
  "envValue v = (case v of None \<Rightarrow> JUndefined | Some s \<Rightarrow> JStr s)"

definition verify :: "env \<Rightarrow> request \<Rightarrow> world \<Rightarrow> response \<times> world" where
  "verify e req w =
     (let mode = getProp (query req) ''hub.mode'';
          token = getProp (query req) ''hub.verify_token'';
          challenge = getProp (query req) ''hub.challenge''
      in if strictEq mode (JStr ''subscribe'') \<and> strictEq token (envValue (VERIFY_TOKEN e))
           then (\<lparr>status = 200, payload = Send challenge\<rparr>, w)
         else (\<lparr>status = 403, payload = SendStatus\<rparr>, w))"

text \<open>
  \<open>JSON.parse\<close> is a parameter: \<open>None\<close> is its \<open>SyntaxError\<close>, which
  \<open>parseFlowResponse\<close> catches.
\<close>

definition parseFlowResponse :: "(string \<Rightarrow> jsval option) \<Rightarrow> jsval \<Rightarrow> jsval" where
  "parseFlowResponse parse responseJson =
     (case responseJson of
        JStr s \<Rightarrow> (case parse s of Some v \<Rightarrow> v | None \<Rightarrow> JObj [])
      | _ \<Rightarrow> responseJson)"

datatype error = TypeError

definition unsupportedText :: string where
  "unsupportedText = ''I can only process text messages and forms right now. Please send ''
                     @ [CHR 0x22] @ ''hi'' @ [CHR 0x22] @ '' to start.''"

text \<open>
  The body of the \<open>try\<close> block of \<open>handleIncomingMessages\<close> for one message that is not
  \<open>null\<close>: \<open>Some TypeError\<close> when \<open>message.text.body\<close> or \<open>message.button.text\<close> reads a
  property of \<open>undefined\<close> or \<open>null\<close>.
\<close>

definition processMessage ::
    "env \<Rightarrow> (string \<Rightarrow> jsval option) \<Rightarrow> jsval \<Rightarrow> world \<Rightarrow> error option \<times> world" where
  "processMessage e parse message w =
     (let from = propOf message ''from'' in
      if strictEq (propOf message ''type'') (JStr ''text'') then
        (if nullish (propOf message ''text'') then (Some TypeError, w)
         else (None, handleMessage e from (propOf (propOf message ''text'') ''body'') w))
      else if strictEq (propOf message ''type'') (JStr ''interactive'') then
        (let interactive = orElse (propOf message ''interactive'') (JObj []);
             replyId = orElse (optProp (propOf interactive ''button_reply'') ''id'')
                              (optProp (propOf interactive ''list_reply'') ''id'');
             flowResponse = optProp (propOf interactive ''nfm_reply'') ''response_json''
         in if truthy flowResponse
              then (None, handleFlowCompletion e from flowResponse
                            (parseFlowResponse parse flowResponse) w)
            else if truthy replyId then (None, handleMessage e from replyId w)
            else (None, w))
      else if strictEq (propOf message ''type'') (JStr ''button'') then
        (if nullish (propOf message ''button'') then (Some TypeError, w)
         else (None, handleMessage e from (propOf (propOf message ''button'') ''text'') w))
      else (None, sendTextMessage from unsupportedText w))"

text \<open>
  The loop of \<open>handleIncomingMessages\<close>. The log lines before the \<open>try\<close> read
  \<open>message.from\<close>, so a \<open>null\<close> message throws out of the loop; an error inside the \<open>try\<close>
  is logged and the loop goes on.
\<close>

fun messagesLoop ::
    "env \<Rightarrow> (string \<Rightarrow> jsval option) \<Rightarrow> jsval list \<Rightarrow> world \<Rightarrow> error option \<times> world" where
  "messagesLoop e parse [] w = (None, w)"
| "messagesLoop e parse (message # rest) w =
     (if nullish message then (Some TypeError, w)
      else messagesLoop e parse rest (snd (processMessage e parse message w)))"

definition handleIncomingMessages ::
    "env \<Rightarrow> (string \<Rightarrow> jsval option) \<Rightarrow> jsval \<Rightarrow> world \<Rightarrow> error option \<times> world" where
  "handleIncomingMessages e parse v w =
     messagesLoop e parse (elems (orElse (propOf v ''messages'') (JArr []))) w"

text \<open>\<open>handleStatusUpdates\<close> and \<open>handleErrors\<close> only log; \<open>status.id\<close> and \<open>error.code\<close>
  throw on a \<open>null\<close> element.\<close>

definition handleStatusUpdates :: "jsval \<Rightarrow> world \<Rightarrow> error option \<times> world" where
  "handleStatusUpdates v w =
     (if list_ex nullish (elems (orElse (propOf v ''statuses'') (JArr [])))
        then (Some TypeError, w) else (None, w))"

definition handleErrors :: "jsval \<Rightarrow> world \<Rightarrow> error option \<times> world" where
  "handleErrors v w =
     (let errors = (if isArray (propOf v ''errors'') then elems (propOf v ''errors'')
                    else [propOf v ''errors''])
      in if list_ex nullish errors then (Some TypeError, w) else (None, w))"

fun changesLoop ::
    "env \<Rightarrow> (string \<Rightarrow> jsval option) \<Rightarrow> jsval list \<Rightarrow> world \<Rightarrow> error option \<times> world" where
  "changesLoop e parse [] w = (None, w)"
| "changesLoop e parse (change # rest) w =
     (let v = optProp change ''value'' in
      if \<not> truthy v then changesLoop e parse rest w
      else
        (case (if isArray (propOf v ''messages'') then handleIncomingMessages e parse v w
               else if isArray (propOf v ''statuses'') then handleStatusUpdates v w
               else if truthy (propOf v ''errors'') then handleErrors v w
               else (None, w)) of
           (Some err, w') \<Rightarrow> (Some err, w')
         | (None, w') \<Rightarrow> changesLoop e parse rest w'))"

fun entriesLoop ::
    "env \<Rightarrow> (string \<Rightarrow> jsval option) \<Rightarrow> jsval list \<Rightarrow> world \<Rightarrow> error option \<times> world" where
  "entriesLoop e parse [] w = (None, w)"
| "entriesLoop e parse (entry # rest) w =
     (let changes = optProp entry ''changes'' in
      if \<not> isArray changes then entriesLoop e parse rest w
      else
        (case changesLoop e parse (elems changes) w of
           (Some err, w') \<Rightarrow> (Some err, w')
         | (None, w') \<Rightarrow> entriesLoop e parse rest w'))"

definition handleWebhook ::
    "env \<Rightarrow> (string \<Rightarrow> jsval option) \<Rightarrow> request \<Rightarrow> world \<Rightarrow> response \<times> world" where
  "handleWebhook e parse req w =
     (let entryList = optProp (body req) ''entry'' in
      if \<not> isArray entryList
        then (\<lparr>status = 200, payload = Send (JStr ''EVENT_RECEIVED'')\<rparr>, w)
      else
        (case entriesLoop e parse (elems entryList) w of
           (None, w') \<Rightarrow> (\<lparr>status = 200, payload = Send (JStr ''EVENT_RECEIVED'')\<rparr>, w')
         | (Some err, w') \<Rightarrow> (\<lparr>status = 200, payload = Send (JStr ''EVENT_RECEIVED'')\<rparr>, w')))"

section \<open>Example data\<close>

text \<open>
  A concrete environment and concrete stores, used where a property is shown at an
  explicit input: an empty store, a store in which user \<open>919876543210\<close> has submitted
  the 8A form and owes the payment for order \<open>ORD_1\<close>, and a store in which that order
  has been paid.
\<close>

definition exampleEnv :: env where
  "exampleEnv =
     \<lparr>VERIFY_TOKEN = Some ''my_token'', BASE_URL = None,
      WHATSAPP_FLOW_ID_8A = None, WHATSAPP_FLOW_ID_712 = None,
      WHATSAPP_FLOW_ID_FERFAR = None, WHATSAPP_FLOW_ID_PROPERTY = None,
      dateNow = (\<lambda>i. i), toISOString = (\<lambda>i. ''2024-01-15T10:00:00.000Z''),
      toLocaleDateString = (\<lambda>i. ''15/1/2024''), random36 = (\<lambda>i. ''abc123''),
      random1000 = (\<lambda>i. 123)\<rparr>"

definition emptyWorld :: world where
  "emptyWorld = \<lparr>users = [], orders = [], sessions = [], outbox = [], ticks = 0\<rparr>"

definition pendingOrder :: obj where
  "pendingOrder =
     [(''id'', JStr ''order_1_abc123''),
      (''orderId'', JStr ''ORD_1''),
      (''whatsappId'', JStr ''919876543210''),
      (''serviceType'', JStr ''8A Form''),
      (''userData'', JObj [(''name'', JStr ''John'')]),
      (''amount'', JNum 500),
      (''createdAt'', JStr ''2024-01-15T10:00:00.000Z''),
      (''updatedAt'', JStr ''2024-01-15T10:00:00.000Z''),
      (''status'', JStr ''pending''),
      (''paymentStatus'', JStr ''pending'')]"

definition awaitingPaymentSession :: obj where
  "awaitingPaymentSession =
     [(''id'', JStr ''session_1_abc123''),
      (''whatsappId'', JStr ''919876543210''),
      (''step'', JStr ''awaiting_payment''),
      (''selectedService'', JStr ''8a_service''),
      (''serviceName'', JStr ''8A Form''),
      (''createdAt'', JStr ''2024-01-15T10:00:00.000Z''),
      (''updatedAt'', JStr ''2024-01-15T10:00:00.000Z''),
      (''orderId'', JStr ''ORD_1'')]"

definition awaitingPaymentWorld :: world where
  "awaitingPaymentWorld =
     \<lparr>users = [], orders = [pendingOrder], sessions = [awaitingPaymentSession],
      outbox = [], ticks = 0\<rparr>"

definition completedOrder :: obj where
  "completedOrder =
     [(''id'', JStr ''order_1_abc123''),
      (''orderId'', JStr ''ORD_1''),
      (''whatsappId'', JStr ''919876543210''),
      (''serviceType'', JStr ''8A Form''),
      (''userData'', JObj [(''name'', JStr ''John'')]),
      (''amount'', JNum 500),
      (''createdAt'', JStr ''2024-01-15T10:00:00.000Z''),
      (''updatedAt'', JStr ''2024-01-15T10:05:00.000Z''),
      (''status'', JStr ''completed''),
      (''paymentStatus'', JStr ''captured''),
      (''paymentId'', JStr ''pay_789''),
      (''completedAt'', JStr ''2024-01-15T10:05:00.000Z'')]"

definition completedWorld :: world where
  "completedWorld =
     \<lparr>users = [], orders = [completedOrder], sessions = [], outbox = [], ticks = 0\<rparr>"

text \<open>The session stored for user \<open>u\<close> has the given step, service and service name.\<close>

abbreviation sessionHas :: "world \<Rightarrow> jsval \<Rightarrow> string \<Rightarrow> string \<Rightarrow> string \<Rightarrow> bool" where
  "sessionHas w u step sid sname \<equiv>
     (\<exists>s. findSessionByWhatsappId u w = Some s
          \<and> getProp s ''step'' = JStr step
          \<and> getProp s ''selectedService'' = JStr sid
          \<and> getProp s ''serviceName'' = JStr sname)"

section \<open>Properties\<close>

subsection \<open>Objects and arrays\<close>

lemma getProp_Nil [simp]: "getProp [] k = JUndefined"
  by (simp add: getProp_def)

lemma getProp_Cons [simp]: "getProp ((k', v) # ob) k = (if k = k' then v else getProp ob k)"
  by (simp add: getProp_def)

lemma getProp_setProp: "getProp (setProp k v ob) k' = (if k' = k then v else getProp ob k')"
  by (induction ob) auto

lemma spread_Nil [simp]: "spread a [] = a"
  by (simp add: spread_def)

lemma spread_Cons [simp]: "spread a ((k, v) # b) = spread (setProp k v a) b"
  by (simp add: spread_def)

lemma stringify_Nil [simp]: "stringify [] = []"
  by (simp add: stringify_def)

lemma stringify_Cons [simp]:
  "stringify ((k, v) # ob) = (if serialisable v then (k, asJSON v) # stringify ob else stringify ob)"
  by (simp add: stringify_def)

text \<open>A property that survives serialisation is read back as it was written.\<close>

lemma getProp_stringify:
  "serialisable (getProp ob k) \<Longrightarrow> getProp (stringify ob) k = asJSON (getProp ob k)"
  by (induction ob) (auto split: if_splits)

lemma strictEq_JStr: "strictEq v (JStr s) \<longleftrightarrow> v = JStr s"
  by (cases v) auto

lemma findIndex_None: "findIndex P xs = None \<longleftrightarrow> List.find P xs = None"
  by (induction xs) auto

lemma findIndex_Some:
  "findIndex P xs = Some i \<Longrightarrow> i < length xs \<and> P (xs ! i) \<and> List.find P xs = Some (xs ! i)"
  by (induction xs arbitrary: i) (auto split: if_splits)

lemma find_imp_findIndex: "List.find P xs = Some x \<Longrightarrow> \<exists>i. findIndex P xs = Some i"
  by (cases "findIndex P xs") (auto simp: findIndex_None)

lemma find_update_first:
  "findIndex P xs = Some i \<Longrightarrow> P y \<Longrightarrow> List.find P (xs[i := y]) = Some y"
  by (induction xs arbitrary: i) (auto split: if_splits)

lemma find_append_new: "List.find P xs = None \<Longrightarrow> P y \<Longrightarrow> List.find P (xs @ [y]) = Some y"
  by (induction xs) (auto split: if_splits)

subsection \<open>Frame lemmas\<close>

lemma sessions_sendMessage [simp]: "sessions (sendMessage to m w) = sessions w"
  by (simp add: sendMessage_def)

lemma orders_sendTextMessage [simp]: "orders (sendTextMessage to text w) = orders w"
  by (simp add: sendTextMessage_def sendMessage_def)

lemma sessions_updateOrder [simp]: "sessions (snd (updateOrder e oid ups w)) = sessions w"
  by (simp add: updateOrder_def Let_def split: option.splits)

lemma sessions_sendPaymentConfirmation [simp]:
  "sessions (sendPaymentConfirmation e to order w) = sessions w"
  by (simp add: sendPaymentConfirmation_def sendTextMessage_def tick_def)

lemma sessions_handleFailure [simp]: "sessions (snd (handleFailure e req w)) = sessions w"
  by (simp add: handleFailure_def Let_def sendTextMessage_def tick_def split: option.splits)

subsection \<open>The price table\<close>

lemma getServiceAmount_known:
  "getServiceAmount (JStr ''8A Form'') = JNum 500"
  "getServiceAmount (JStr ''7/12 Form'') = JNum 300"
  "getServiceAmount (JStr ''Ferfar'') = JNum 400"
  "getServiceAmount (JStr ''Property Card'') = JNum 250"
  by (simp_all add: getServiceAmount_def literalLookup_def amounts_def orElse_def)

lemma getServiceAmount_default:
  assumes "s \<notin> set (map fst amounts)" and "s \<notin> set objectPrototypeKeys"
  shows "getServiceAmount (JStr s) = JNum 100"
  using assms by (simp add: getServiceAmount_def literalLookup_def amounts_def orElse_def)

text \<open>
  C8. \<open>getServiceAmount\<close> is documented to return the default 100 for every name outside
  the table. At the name \<open>constructor\<close> the lookup \<open>amounts[serviceName]\<close> finds the
  member inherited from \<open>Object.prototype\<close>, which is truthy, so the function returns
  that built-in function and not 100.
\<close>

theorem getServiceAmount_inherited:
  "getServiceAmount (JStr ''constructor'') = JNative ''constructor''
   \<and> getServiceAmount (JStr ''constructor'') \<noteq> JNum 100"
  by (simp add: getServiceAmount_def literalLookup_def amounts_def objectPrototypeKeys_def
      orElse_def)

subsection \<open>Orders\<close>

text \<open>
  C10. Every order returned by \<open>createOrder\<close> has status \<open>pending\<close> and payment status
  \<open>pending\<close>, and its \<open>createdAt\<close> and \<open>updatedAt\<close> are clock readings made during the
  call, whatever the caller's \<open>orderData\<close> holds for those four fields: they are
  written after the caller's fields.
\<close>

theorem createOrder_defaults:
  "getProp (fst (createOrder e orderData w)) ''status'' = JStr ''pending''
   \<and> getProp (fst (createOrder e orderData w)) ''paymentStatus'' = JStr ''pending''
   \<and> getProp (fst (createOrder e orderData w)) ''createdAt''
       = JStr (toISOString e (ticks w + (if truthy (getProp orderData ''orderId'') then 2 else 4)))
   \<and> getProp (fst (createOrder e orderData w)) ''updatedAt''
       = JStr (toISOString e (ticks w + (if truthy (getProp orderData ''orderId'') then 3 else 5)))"
  by (auto simp add: createOrder_def Let_def getProp_setProp eval_nat_numeral)

subsection \<open>Starting a service flow\<close>

lemma triggerServiceFlow_session:
  "sessionHas (triggerServiceFlow e (JStr u) sid sname w) (JStr u)
     ''awaiting_flow_completion'' sid sname"
proof (cases "findIndex (\<lambda>session. strictEq (getProp session ''whatsappId'') (JStr u)) (sessions w)")
  case None
  then have "List.find (\<lambda>session. strictEq (getProp session ''whatsappId'') (JStr u)) (sessions w)
               = None"
    by (simp add: findIndex_None)
  then show ?thesis
    by (simp add: triggerServiceFlow_def createOrUpdateSession_def findSessionByWhatsappId_def
        tick_def createSession_def Let_def find_append_new getProp_stringify getProp_setProp)
next
  case (Some i)
  then obtain x where
    "List.find (\<lambda>session. strictEq (getProp session ''whatsappId'') (JStr u)) (sessions w) = Some x"
    using findIndex_Some by blast
  with Some show ?thesis
    by (simp add: triggerServiceFlow_def createOrUpdateSession_def findSessionByWhatsappId_def
        tick_def updateSession_def Let_def find_update_first getProp_stringify getProp_setProp)
qed

lemma keyword_8a_service: "trim (toLowerCase ''8a_service'') = ''8a_service''"
  by (simp add: trim_def toLowerCase_def lowerChar_def stripLeading.simps whiteSpace_def)

text \<open>
  C1, as amended. For every user, the start-service-flow procedure leaves the user's
  session with step \<open>awaiting_flow_completion\<close>, the selected service identifier and
  that service's name, whatever the store held before; and \<open>handleMessage\<close> runs the
  procedure with the matching identifier and name for each keyword or button id of the
  four services, after lower-casing and trimming the text.
\<close>

theorem start_service_flow_session:
  "sessionHas (triggerServiceFlow e (JStr u) sid sname w) (JStr u)
     ''awaiting_flow_completion'' sid sname
   \<and> (trim (toLowerCase msgText) \<in> {''8a_service'', ''8a'', ''8a form''} \<longrightarrow>
        sessionHas (handleMessage e (JStr u) (JStr msgText) w) (JStr u)
          ''awaiting_flow_completion'' ''8a_service'' ''8A Form'')
   \<and> (trim (toLowerCase msgText) \<in> {''712_service'', ''712'', ''7/12''} \<longrightarrow>
        sessionHas (handleMessage e (JStr u) (JStr msgText) w) (JStr u)
          ''awaiting_flow_completion'' ''712_service'' ''7/12 Form'')
   \<and> (trim (toLowerCase msgText) \<in> {''ferfar_service'', ''ferfar''} \<longrightarrow>
        sessionHas (handleMessage e (JStr u) (JStr msgText) w) (JStr u)
          ''awaiting_flow_completion'' ''ferfar_service'' ''Ferfar'')
   \<and> (trim (toLowerCase msgText) \<in> {''property_card_service'', ''property'', ''property card''} \<longrightarrow>
        sessionHas (handleMessage e (JStr u) (JStr msgText) w) (JStr u)
          ''awaiting_flow_completion'' ''property_card_service'' ''Property Card'')"
proof (intro conjI impI)
  show "sessionHas (triggerServiceFlow e (JStr u) sid sname w) (JStr u)
          ''awaiting_flow_completion'' sid sname"
    by (rule triggerServiceFlow_session)
next
  assume "trim (toLowerCase msgText) \<in> {''8a_service'', ''8a'', ''8a form''}"
  then have "handleMessage e (JStr u) (JStr msgText) w
      = triggerServiceFlow e (JStr u) ''8a_service'' ''8A Form''
          (snd (upsertUser e (JStr u)
                  [(''whatsappId'', JStr u), (''phoneNumber'', JStr u),
                   (''lastSeen'', JStr (toISOString e (ticks w))), (''lastMessage'', JStr msgText)]
                  (tick 1 w)))"
    by (auto simp: handleMessage_def Let_def)
  then show "sessionHas (handleMessage e (JStr u) (JStr msgText) w) (JStr u)
          ''awaiting_flow_completion'' ''8a_service'' ''8A Form''"
    using triggerServiceFlow_session by simp
next
  assume "trim (toLowerCase msgText) \<in> {''712_service'', ''712'', ''7/12''}"
  then have "handleMessage e (JStr u) (JStr msgText) w
      = triggerServiceFlow e (JStr u) ''712_service'' ''7/12 Form''
          (snd (upsertUser e (JStr u)
                  [(''whatsappId'', JStr u), (''phoneNumber'', JStr u),
                   (''lastSeen'', JStr (toISOString e (ticks w))), (''lastMessage'', JStr msgText)]
                  (tick 1 w)))"
    by (auto simp: handleMessage_def Let_def)
  then show "sessionHas (handleMessage e (JStr u) (JStr msgText) w) (JStr u)
          ''awaiting_flow_completion'' ''712_service'' ''7/12 Form''"
    using triggerServiceFlow_session by simp
next
  assume "trim (toLowerCase msgText) \<in> {''ferfar_service'', ''ferfar''}"
  then have "handleMessage e (JStr u) (JStr msgText) w
      = triggerServiceFlow e (JStr u) ''ferfar_service'' ''Ferfar''
          (snd (upsertUser e (JStr u)
                  [(''whatsappId'', JStr u), (''phoneNumber'', JStr u),
                   (''lastSeen'', JStr (toISOString e (ticks w))), (''lastMessage'', JStr msgText)]
                  (tick 1 w)))"
    by (auto simp: handleMessage_def Let_def)
  then show "sessionHas (handleMessage e (JStr u) (JStr msgText) w) (JStr u)
          ''awaiting_flow_completion'' ''ferfar_service'' ''Ferfar''"
    using triggerServiceFlow_session by simp
next
  assume "trim (toLowerCase msgText)
            \<in> {''property_card_service'', ''property'', ''property card''}"
  then have "handleMessage e (JStr u) (JStr msgText) w
      = triggerServiceFlow e (JStr u) ''property_card_service'' ''Property Card''
          (snd (upsertUser e (JStr u)
                  [(''whatsappId'', JStr u), (''phoneNumber'', JStr u),
                   (''lastSeen'', JStr (toISOString e (ticks w))), (''lastMessage'', JStr msgText)]
                  (tick 1 w)))"
    by (auto simp: handleMessage_def Let_def)
  then show "sessionHas (handleMessage e (JStr u) (JStr msgText) w) (JStr u)
          ''awaiting_flow_completion'' ''property_card_service'' ''Property Card''"
    using triggerServiceFlow_session by simp
qed

text \<open>
  The theorem at user \<open>919876543210\<close> sending \<open>8a_service\<close>: from an empty store, and
  from a store in which the user already waits at the payment step of an earlier flow.
\<close>

theorem start_service_flow_session_witness:
  "trim (toLowerCase ''8a_service'') \<in> {''8a_service'', ''8a'', ''8a form''}
   \<and> sessionHas (handleMessage exampleEnv (JStr ''919876543210'') (JStr ''8a_service'') emptyWorld)
        (JStr ''919876543210'') ''awaiting_flow_completion'' ''8a_service'' ''8A Form''
   \<and> sessionHas (handleMessage exampleEnv (JStr ''919876543210'') (JStr ''8a_service'')
                   awaitingPaymentWorld)
        (JStr ''919876543210'') ''awaiting_flow_completion'' ''8a_service'' ''8A Form''"
proof -
  have k: "trim (toLowerCase ''8a_service'') \<in> {''8a_service'', ''8a'', ''8a form''}"
    by (simp add: keyword_8a_service)
  from start_service_flow_session [where e = exampleEnv and u = "''919876543210''"
      and msgText = "''8a_service''" and w = emptyWorld] k
  have a: "sessionHas (handleMessage exampleEnv (JStr ''919876543210'') (JStr ''8a_service'')
                         emptyWorld)
        (JStr ''919876543210'') ''awaiting_flow_completion'' ''8a_service'' ''8A Form''"
    by blast
  from start_service_flow_session [where e = exampleEnv and u = "''919876543210''"
      and msgText = "''8a_service''" and w = awaitingPaymentWorld] k
  have b: "sessionHas (handleMessage exampleEnv (JStr ''919876543210'') (JStr ''8a_service'')
                   awaitingPaymentWorld)
        (JStr ''919876543210'') ''awaiting_flow_completion'' ''8a_service'' ''8A Form''"
    by blast
  from k a b show ?thesis by blast
qed

text \<open>
  C1 as stated fails: after user \<open>919876543210\<close> sends \<open>8a_service\<close> to an empty store,
  the stored step is not \<open>awaiting_form_completion\<close>.
\<close>

theorem step_name_counterexample:
  "\<not> sessionHas (handleMessage exampleEnv (JStr ''919876543210'') (JStr ''8a_service'') emptyWorld)
       (JStr ''919876543210'') ''awaiting_form_completion'' ''8a_service'' ''8A Form''"
proof
  assume "sessionHas (handleMessage exampleEnv (JStr ''919876543210'') (JStr ''8a_service'')
                        emptyWorld)
       (JStr ''919876543210'') ''awaiting_form_completion'' ''8a_service'' ''8A Form''"
  then obtain s where s: "findSessionByWhatsappId (JStr ''919876543210'')
        (handleMessage exampleEnv (JStr ''919876543210'') (JStr ''8a_service'') emptyWorld) = Some s"
      and st: "getProp s ''step'' = JStr ''awaiting_form_completion''"
    by blast
  have "handleMessage exampleEnv (JStr ''919876543210'') (JStr ''8a_service'') emptyWorld
      = triggerServiceFlow exampleEnv (JStr ''919876543210'') ''8a_service'' ''8A Form''
          (snd (upsertUser exampleEnv (JStr ''919876543210'')
                  [(''whatsappId'', JStr ''919876543210''), (''phoneNumber'', JStr ''919876543210''),
                   (''lastSeen'', JStr (toISOString exampleEnv (ticks emptyWorld))),
                   (''lastMessage'', JStr ''8a_service'')]
                  (tick 1 emptyWorld)))"
    by (simp add: handleMessage_def Let_def keyword_8a_service)
  with triggerServiceFlow_session s obtain s' where
    "Some s = Some s'" and "getProp s' ''step'' = JStr ''awaiting_flow_completion''"
    by metis
  with st show False by simp
qed

subsection \<open>Completing a flow\<close>

text \<open>
  C6. For every user with no stored session, \<open>handleFlowCompletion\<close> hands exactly one
  message to the gateway, a text message to that user whose body is
  \<open>Session expired. Please start over by sending "hi".\<close>, and leaves the orders, the
  sessions and the users as they were.
\<close>

theorem handleFlowCompletion_no_session:
  assumes "findSessionByWhatsappId u w = None"
  shows \<open>outbox (handleFlowCompletion e u tok formData w)
           = outbox w
             @ [(u, JObj [(''type'', JStr ''text''),
                          (''text'',
                           JObj [(''body'',
                                  JStr ''Session expired. Please start over by sending "hi".'')])])]
         \<and> orders (handleFlowCompletion e u tok formData w) = orders w
         \<and> sessions (handleFlowCompletion e u tok formData w) = sessions w
         \<and> users (handleFlowCompletion e u tok formData w) = users w\<close>
  using assms
  by (simp add: handleFlowCompletion_def sendTextMessage_def sendMessage_def textMessage_def
      sessionExpiredText_def)

text \<open>
  The theorem for a user without a session in a store that holds another user's
  session and order, and for user \<open>919876543210\<close> in an empty store.
\<close>

theorem handleFlowCompletion_no_session_witness:
  \<open>findSessionByWhatsappId (JStr ''918888888888'') awaitingPaymentWorld = None
   \<and> outbox (handleFlowCompletion exampleEnv (JStr ''918888888888'') (JStr ''token'')
               (JObj [(''name'', JStr ''John'')]) awaitingPaymentWorld)
       = [(JStr ''918888888888'',
           JObj [(''type'', JStr ''text''),
                 (''text'',
                  JObj [(''body'',
                         JStr ''Session expired. Please start over by sending "hi".'')])])]
   \<and> orders (handleFlowCompletion exampleEnv (JStr ''918888888888'') (JStr ''token'')
               (JObj [(''name'', JStr ''John'')]) awaitingPaymentWorld) = [pendingOrder]
   \<and> sessions (handleFlowCompletion exampleEnv (JStr ''918888888888'') (JStr ''token'')
               (JObj [(''name'', JStr ''John'')]) awaitingPaymentWorld) = [awaitingPaymentSession]
   \<and> findSessionByWhatsappId (JStr ''919876543210'') emptyWorld = None
   \<and> outbox (handleFlowCompletion exampleEnv (JStr ''919876543210'') (JStr ''token'')
               (JObj [(''name'', JStr ''John'')]) emptyWorld)
       = [(JStr ''919876543210'',
           JObj [(''type'', JStr ''text''),
                 (''text'',
                  JObj [(''body'',
                         JStr ''Session expired. Please start over by sending "hi".'')])])]
   \<and> orders (handleFlowCompletion exampleEnv (JStr ''919876543210'') (JStr ''token'')
               (JObj [(''name'', JStr ''John'')]) emptyWorld) = []
   \<and> sessions (handleFlowCompletion exampleEnv (JStr ''919876543210'') (JStr ''token'')
               (JObj [(''name'', JStr ''John'')]) emptyWorld) = []\<close>
proof -
  have h: "findSessionByWhatsappId (JStr ''918888888888'') awaitingPaymentWorld = None"
    by (simp add: findSessionByWhatsappId_def awaitingPaymentWorld_def awaitingPaymentSession_def)
  have h': "findSessionByWhatsappId (JStr ''919876543210'') emptyWorld = None"
    by (simp add: findSessionByWhatsappId_def emptyWorld_def)
  from handleFlowCompletion_no_session [OF h, of exampleEnv "JStr ''token''"
      "JObj [(''name'', JStr ''John'')]"]
    handleFlowCompletion_no_session [OF h', of exampleEnv "JStr ''token''"
      "JObj [(''name'', JStr ''John'')]"]
  show ?thesis using h h' by (simp add: awaitingPaymentWorld_def emptyWorld_def)
qed

subsection \<open>The webhook\<close>



lemma verify_is_exact:
  "fst (verify exampleEnv
          \<lparr>query = [(''hub.mode'', JStr ''subscribe''), (''hub.verify_token'', JStr ''My_Token''),
                    (''hub.challenge'', JStr ''123'')], body = JUndefined\<rparr> w)
     = \<lparr>status = 403, payload = SendStatus\<rparr>"
  "fst (verify exampleEnv
          \<lparr>query = [(''hub.mode'', JStr ''subscribe''), (''hub.verify_token'', JStr '' my_token''),
                    (''hub.challenge'', JStr ''123'')], body = JUndefined\<rparr> w)
     = \<lparr>status = 403, payload = SendStatus\<rparr>"
  "fst (verify exampleEnv
          \<lparr>query = [(''hub.mode'', JStr ''subscribe''), (''hub.verify_token'', JStr ''my_token''),
                    (''hub.challenge'', JStr ''123'')], body = JUndefined\<rparr> w)
     = \<lparr>status = 200, payload = Send (JStr ''123'')\<rparr>"
  by (simp_all add: verify_def envValue_def exampleEnv_def)

text \<open>
  C4. For every request body, \<open>handleWebhook\<close> answers 200 with \<open>EVENT_RECEIVED\<close>, also
  when the processing throws; when the body has no \<open>entry\<close> array the store is returned
  unchanged, with nothing handed to the gateway.
\<close>

theorem handleWebhook_acknowledges:
  "fst (handleWebhook e parse req w) = \<lparr>status = 200, payload = Send (JStr ''EVENT_RECEIVED'')\<rparr>
   \<and> (\<not> isArray (optProp (body req) ''entry'') \<longrightarrow> snd (handleWebhook e parse req w) = w)"
  by (simp add: handleWebhook_def Let_def split: prod.splits option.splits)

text \<open>
  The theorem at an empty object, at an object without \<open>entry\<close>, at an \<open>entry\<close> that is
  not a list, and at a delivery whose only message is \<open>null\<close>, which throws.
\<close>

theorem handleWebhook_acknowledges_witness:
  "\<not> isArray (optProp (JObj []) ''entry'')
   \<and> handleWebhook exampleEnv (\<lambda>s. None) \<lparr>query = [], body = JObj []\<rparr> awaitingPaymentWorld
       = (\<lparr>status = 200, payload = Send (JStr ''EVENT_RECEIVED'')\<rparr>, awaitingPaymentWorld)
   \<and> \<not> isArray (optProp (JObj [(''object'', JStr ''whatsapp_business_account'')]) ''entry'')
   \<and> handleWebhook exampleEnv (\<lambda>s. None)
         \<lparr>query = [], body = JObj [(''object'', JStr ''whatsapp_business_account'')]\<rparr>
         awaitingPaymentWorld
       = (\<lparr>status = 200, payload = Send (JStr ''EVENT_RECEIVED'')\<rparr>, awaitingPaymentWorld)
   \<and> \<not> isArray (optProp (JObj [(''entry'', JStr ''not a list'')]) ''entry'')
   \<and> handleWebhook exampleEnv (\<lambda>s. None)
         \<lparr>query = [], body = JObj [(''entry'', JStr ''not a list'')]\<rparr> awaitingPaymentWorld
       = (\<lparr>status = 200, payload = Send (JStr ''EVENT_RECEIVED'')\<rparr>, awaitingPaymentWorld)
   \<and> fst (handleWebhook exampleEnv (\<lambda>s. None)
              \<lparr>query = [],
               body = JObj [(''entry'', JArr [JObj [(''changes'',
                        JArr [JObj [(''value'', JObj [(''messages'', JArr [JNull])])]])]])]\<rparr>
              awaitingPaymentWorld)
       = \<lparr>status = 200, payload = Send (JStr ''EVENT_RECEIVED'')\<rparr>"
proof -
  have a: "\<not> isArray (optProp (JObj []) ''entry'')"
    and b: "\<not> isArray (optProp (JObj [(''object'', JStr ''whatsapp_business_account'')]) ''entry'')"
    and c: "\<not> isArray (optProp (JObj [(''entry'', JStr ''not a list'')]) ''entry'')"
    by (simp_all add: isArray_def optProp_def propOf_def nullish_def)
  note t = handleWebhook_acknowledges [where e = exampleEnv and parse = "\<lambda>s. None"
      and w = awaitingPaymentWorld]
  from t [where req = "\<lparr>query = [], body = JObj []\<rparr>"] a
  have a': "handleWebhook exampleEnv (\<lambda>s. None) \<lparr>query = [], body = JObj []\<rparr> awaitingPaymentWorld
       = (\<lparr>status = 200, payload = Send (JStr ''EVENT_RECEIVED'')\<rparr>, awaitingPaymentWorld)"
    by (simp add: prod_eq_iff)
  from t [where req = "\<lparr>query = [],
                        body = JObj [(''object'', JStr ''whatsapp_business_account'')]\<rparr>"] b
  have b': "handleWebhook exampleEnv (\<lambda>s. None)
         \<lparr>query = [], body = JObj [(''object'', JStr ''whatsapp_business_account'')]\<rparr>
         awaitingPaymentWorld
       = (\<lparr>status = 200, payload = Send (JStr ''EVENT_RECEIVED'')\<rparr>, awaitingPaymentWorld)"
    by (simp add: prod_eq_iff)
  from t [where req = "\<lparr>query = [], body = JObj [(''entry'', JStr ''not a list'')]\<rparr>"] c
  have c': "handleWebhook exampleEnv (\<lambda>s. None)
         \<lparr>query = [], body = JObj [(''entry'', JStr ''not a list'')]\<rparr> awaitingPaymentWorld
       = (\<lparr>status = 200, payload = Send (JStr ''EVENT_RECEIVED'')\<rparr>, awaitingPaymentWorld)"
    by (simp add: prod_eq_iff)
  from t [where req = "\<lparr>query = [],
               body = JObj [(''entry'', JArr [JObj [(''changes'',
                        JArr [JObj [(''value'', JObj [(''messages'', JArr [JNull])])]])]])]\<rparr>"]
  have d: "fst (handleWebhook exampleEnv (\<lambda>s. None)
              \<lparr>query = [],
               body = JObj [(''entry'', JArr [JObj [(''changes'',
                        JArr [JObj [(''value'', JObj [(''messages'', JArr [JNull])])]])]])]\<rparr>
              awaitingPaymentWorld)
       = \<lparr>status = 200, payload = Send (JStr ''EVENT_RECEIVED'')\<rparr>"
    by simp
  from a b c a' b' c' d show ?thesis by simp
qed

subsection \<open>Payment outcomes\<close>




text \<open>
  C9. For every stored order, whatever its status, \<open>handleFailure\<close> called with that
  order's identifier leaves the order stored under that identifier with status
  \<open>failed\<close> and payment status \<open>failed\<close>: no state is terminal.
\<close>

theorem handleFailure_overwrites_order:
  assumes q: "getProp (query req) ''orderId'' = JStr oid"
    and ne: "oid \<noteq> []"
    and ex: "findOrderByOrderId (JStr oid) w = Some order"
  shows "\<exists>order'. findOrderByOrderId (JStr oid) (snd (handleFailure e req w)) = Some order'
           \<and> getProp order' ''status'' = JStr ''failed''
           \<and> getProp order' ''paymentStatus'' = JStr ''failed''"
proof -
  let ?P = "\<lambda>order. strictEq (getProp order ''orderId'') (JStr oid)"
  from ex obtain i where i: "findIndex ?P (orders w) = Some i"
    unfolding findOrderByOrderId_def using find_imp_findIndex by fastforce
  then have old: "getProp (orders w ! i) ''orderId'' = JStr oid"
    using findIndex_Some [of ?P "orders w" i] by (simp add: strictEq_JStr)
  let ?merged = "spread (spread (orders w ! i)
                   [(''status'', JStr ''failed''), (''paymentStatus'', JStr ''failed''),
                    (''failedAt'', JStr (toISOString e (ticks w)))])
                   [(''updatedAt'', JStr (toISOString e (ticks w + 1)))]"
  have m: "getProp (stringify ?merged) ''orderId'' = JStr oid"
    "getProp (stringify ?merged) ''status'' = JStr ''failed''"
    "getProp (stringify ?merged) ''paymentStatus'' = JStr ''failed''"
    using old by (simp_all add: getProp_stringify getProp_setProp)
  then have f: "List.find ?P ((orders w)[i := stringify ?merged]) = Some (stringify ?merged)"
    using i by (simp add: find_update_first)
  have "findOrderByOrderId (JStr oid) (snd (handleFailure e req w)) = Some (stringify ?merged)"
    using q ne i f
    by (simp add: handleFailure_def updateOrder_def findOrderByOrderId_def tick_def Let_def)
  with m show ?thesis by blast
qed

text \<open>The theorem at an order that is already completed and captured.\<close>

theorem handleFailure_overwrites_order_witness:
  "getProp [(''orderId'', JStr ''ORD_1'')] ''orderId'' = JStr ''ORD_1''
   \<and> ''ORD_1'' \<noteq> []
   \<and> findOrderByOrderId (JStr ''ORD_1'') completedWorld = Some completedOrder
   \<and> getProp completedOrder ''status'' = JStr ''completed''
   \<and> getProp completedOrder ''paymentStatus'' = JStr ''captured''
   \<and> (\<exists>order'. findOrderByOrderId (JStr ''ORD_1'')
                    (snd (handleFailure exampleEnv
                            \<lparr>query = [(''orderId'', JStr ''ORD_1'')], body = JUndefined\<rparr>
                            completedWorld)) = Some order'
           \<and> getProp order' ''status'' = JStr ''failed''
           \<and> getProp order' ''paymentStatus'' = JStr ''failed'')"
proof -
  have q: "getProp (query \<lparr>query = [(''orderId'', JStr ''ORD_1'')], body = JUndefined\<rparr>) ''orderId''
             = JStr ''ORD_1''"
    by simp
  have ne: "''ORD_1'' \<noteq> []" by simp
  have ex: "findOrderByOrderId (JStr ''ORD_1'') completedWorld = Some completedOrder"
    by (simp add: findOrderByOrderId_def completedWorld_def completedOrder_def)
  have st: "getProp completedOrder ''status'' = JStr ''completed''
            \<and> getProp completedOrder ''paymentStatus'' = JStr ''captured''"
    by (simp add: completedOrder_def)
  from handleFailure_overwrites_order [OF q ne ex, of exampleEnv] ex st
  show ?thesis by simp
qed

text \<open>
  The two branches of \<open>handleSuccess\<close> side by side: a request that is not a mock
  payment, for a stored order, moves the owner's session to step \<open>completed\<close>; a mock
  payment never writes the sessions.
\<close>

lemma handleSuccess_real_completes_session:
  assumes "\<not> nullish (body req)"
    and "\<not> strictEq (propOf (body req) ''mock'') (JStr ''true'')"
    and "truthy (getProp (query req) ''orderId'')"
    and "findOrderByOrderId (getProp (query req) ''orderId'') w = Some order"
    and "getProp order ''whatsappId'' = JStr u"
  shows "\<exists>s. findSessionByWhatsappId (JStr u) (snd (handleSuccess e req w)) = Some s
             \<and> getProp s ''step'' = JStr ''completed''"
proof -
  let ?P = "\<lambda>session. strictEq (getProp session ''whatsappId'') (JStr u)"
  define w2 where "w2 = sendPaymentConfirmation e (JStr u) order
                     (snd (updateOrder e (getProp (query req) ''orderId'')
                        [(''status'', JStr ''completed''), (''paymentStatus'', JStr ''captured''),
                         (''paymentId'',
                            orElse (getProp (query req) ''paymentId'') (JStr ''razorpay_payment_id'')),
                         (''completedAt'', JStr (toISOString e (ticks w)))]
                        (tick 1 w)))"
  have s2: "sessions w2 = sessions w"
    by (simp add: w2_def tick_def)
  have eq: "snd (handleSuccess e req w)
      = snd (createOrUpdateSession e (JStr u)
               [(''whatsappId'', JStr u), (''step'', JStr ''completed''),
                (''orderId'', getProp (query req) ''orderId''),
                (''completedAt'', JStr (toISOString e (ticks w2)))]
               (tick 1 w2))"
    using assms by (simp add: handleSuccess_def Let_def verifyPaymentSignature_def w2_def)
  show ?thesis
  proof (cases "findIndex ?P (sessions w)")
    case None
    then have "List.find ?P (sessions w) = None"
      by (simp add: findIndex_None)
    then show ?thesis
      unfolding eq
      by (simp add: createOrUpdateSession_def findSessionByWhatsappId_def tick_def s2
          createSession_def Let_def find_append_new getProp_stringify getProp_setProp)
  next
    case (Some i)
    then obtain x where "List.find ?P (sessions w) = Some x"
      using findIndex_Some by blast
    with Some show ?thesis
      unfolding eq
      by (simp add: createOrUpdateSession_def findSessionByWhatsappId_def tick_def s2
          updateSession_def Let_def find_update_first getProp_stringify getProp_setProp)
  qed
qed

lemma handleSuccess_mock_sessions:
  assumes "strictEq (propOf (body req) ''mock'') (JStr ''true'')"
  shows "sessions (snd (handleSuccess e req w)) = sessions w"
  using assms by (simp add: handleSuccess_def Let_def split: option.splits)

text \<open>
  C3. \<open>handleSuccess\<close> on a request whose body carries \<open>mock = "true"\<close>, for the pending
  order \<open>ORD_1\<close> of user \<open>919876543210\<close>: the order becomes completed and captured with
  the payment identifier recorded, one message is handed to the gateway for the
  owning user, and the user's session is left at step \<open>awaiting_payment\<close>. The mock
  branch returns before the session update that the other branch performs.
\<close>

theorem handleSuccess_mock_skips_session:
  "(let (r, w') = handleSuccess exampleEnv
                    \<lparr>query = [(''orderId'', JStr ''ORD_1''), (''paymentId'', JStr ''mock_456'')],
                     body = JObj [(''mock'', JStr ''true'')]\<rparr>
                    awaitingPaymentWorld
    in status r = 200
       \<and> map (\<lambda>order. (getProp order ''status'', getProp order ''paymentStatus'',
                         getProp order ''paymentId'')) (orders w')
           = [(JStr ''completed'', JStr ''captured'', JStr ''mock_456'')]
       \<and> map fst (outbox w') = [JStr ''919876543210'']
       \<and> sessions w' = [awaitingPaymentSession]
       \<and> getProp awaitingPaymentSession ''step'' = JStr ''awaiting_payment'')"
  by (simp add: handleSuccess_def Let_def nullish_def propOf_def findOrderByOrderId_def
      awaitingPaymentWorld_def pendingOrder_def awaitingPaymentSession_def updateOrder_def
      sendPaymentConfirmation_def sendTextMessage_def sendMessage_def tick_def orElse_def)

text \<open>
  No request is ever answered with the verification failure, and every request that is
  not a mock payment completes the stored order it names, signed or not.
\<close>

lemma handleSuccess_never_rejects_signature:
  "fst (handleSuccess e req w)
     \<noteq> \<lparr>status = 400, payload = Json (JObj [(''error'', JStr ''Payment verification failed'')])\<rparr>"
  by (simp add: handleSuccess_def handleFailure_def verifyPaymentSignature_def Let_def
      split: option.splits)

lemma handleSuccess_unsigned_completes:
  assumes "\<not> nullish (body req)"
    and "\<not> strictEq (propOf (body req) ''mock'') (JStr ''true'')"
    and "getProp (query req) ''orderId'' = JStr oid" and "oid \<noteq> []"
    and "findOrderByOrderId (JStr oid) w = Some order"
  shows "\<exists>order'. findOrderByOrderId (JStr oid) (snd (handleSuccess e req w)) = Some order'
           \<and> getProp order' ''status'' = JStr ''completed''
           \<and> getProp order' ''paymentStatus'' = JStr ''captured''"
proof -
  let ?P = "\<lambda>order. strictEq (getProp order ''orderId'') (JStr oid)"
  from assms(5) obtain i where i: "findIndex ?P (orders w) = Some i"
    unfolding findOrderByOrderId_def using find_imp_findIndex by fastforce
  then have old: "getProp (orders w ! i) ''orderId'' = JStr oid"
    using findIndex_Some [of ?P "orders w" i] by (simp add: strictEq_JStr)
  let ?merged = "spread (spread (orders w ! i)
                   [(''status'', JStr ''completed''), (''paymentStatus'', JStr ''captured''),
                    (''paymentId'',
                       orElse (getProp (query req) ''paymentId'') (JStr ''razorpay_payment_id'')),
                    (''completedAt'', JStr (toISOString e (ticks w)))])
                   [(''updatedAt'', JStr (toISOString e (ticks w + 1)))]"
  have m: "getProp (stringify ?merged) ''orderId'' = JStr oid"
    "getProp (stringify ?merged) ''status'' = JStr ''completed''"
    "getProp (stringify ?merged) ''paymentStatus'' = JStr ''captured''"
    using old by (simp_all add: getProp_stringify getProp_setProp)
  then have f: "List.find ?P ((orders w)[i := stringify ?merged]) = Some (stringify ?merged)"
    using i by (simp add: find_update_first)
  have "findOrderByOrderId (JStr oid) (snd (handleSuccess e req w)) = Some (stringify ?merged)"
    using assms i f
    by (simp add: handleSuccess_def updateOrder_def findOrderByOrderId_def tick_def Let_def
        verifyPaymentSignature_def sendPaymentConfirmation_def sendTextMessage_def
        sendMessage_def createOrUpdateSession_def createSession_def updateSession_def
        split: option.splits)
  with m show ?thesis by blast
qed

text \<open>
  C2. \<open>verifyPaymentSignature\<close> accepts every signature, and \<open>handleSuccess\<close> on a
  request that is not a mock payment and carries no signature, for the pending order
  \<open>ORD_1\<close>: the order becomes completed and captured although nothing was verified.
\<close>

theorem handleSuccess_without_signature:
  "(\<forall>orderId paymentId signature. verifyPaymentSignature orderId paymentId signature)
   \<and> (let (r, w') = handleSuccess exampleEnv
                    \<lparr>query = [(''orderId'', JStr ''ORD_1''), (''paymentId'', JStr ''pay_1'')],
                     body = JObj []\<rparr>
                    awaitingPaymentWorld
    in status r = 200
       \<and> map (\<lambda>order. (getProp order ''status'', getProp order ''paymentStatus'',
                         getProp order ''paymentId'')) (orders w')
           = [(JStr ''completed'', JStr ''captured'', JStr ''pay_1'')])"
  by (simp add: handleSuccess_def Let_def nullish_def propOf_def findOrderByOrderId_def
      awaitingPaymentWorld_def pendingOrder_def awaitingPaymentSession_def updateOrder_def
      sendPaymentConfirmation_def sendTextMessage_def sendMessage_def tick_def orElse_def
      verifyPaymentSignature_def createOrUpdateSession_def findSessionByWhatsappId_def
      updateSession_def)

end
